theory Spec2Isabelle
  imports Main
begin

section \<open>Star-Shell package manager (star/star.go)\<close>

text \<open>
  A shallow embedding of the Go package \<^verbatim>\<open>star\<close>: \<^verbatim>\<open>Install\<close>, \<^verbatim>\<open>ListInstalledStars\<close>,
  \<^verbatim>\<open>Uninstall\<close> and \<^verbatim>\<open>Update\<close> over the manifest file \<^verbatim>\<open>./stars/.stars\<close> and the install
  directory \<^verbatim>\<open>./stars\<close>.

  Go strings are byte sequences: they are \<open>string\<close> here (a \<open>char\<close> is one byte).
  A Go function returning \<^verbatim>\<open>(value, error)\<close> returns a pair whose second component is
  an \<open>error option\<close>, \<open>None\<close> being \<^verbatim>\<open>nil\<close>.  A function with effects on the file system or
  the network takes the \<open>world\<close> and returns the new one.  A \<^verbatim>\<open>nil\<close> slice and an empty slice
  are both the empty list; the one place where Go tells them apart (the JSON encoder) is
  noted there.
\<close>

subsection \<open>Strings (package strings)\<close>

fun HasPrefix :: "string \<Rightarrow> string \<Rightarrow> bool" where
  "HasPrefix s [] = True"
| "HasPrefix [] (p # ps) = False"
| "HasPrefix (c # cs) (p # ps) = (c = p \<and> HasPrefix cs ps)"

text \<open>\<^verbatim>\<open>strings.Contains(s, substr)\<close>: \<open>substr\<close> occurs in \<open>s\<close> as a contiguous block.\<close>

fun Contains :: "string \<Rightarrow> string \<Rightarrow> bool" where
  "Contains [] substr = (substr = [])"
| "Contains (c # cs) substr = (HasPrefix (c # cs) substr \<or> Contains cs substr)"

subsection \<open>Package records and errors\<close>

record Package =
  User :: string
  Repo :: string
  Version :: string
  File :: string

text \<open>
  The error numbers the model of the operating system hands out, and Go's error values
  as the source builds them: \<open>New\<close> is \<^verbatim>\<open>errors.New\<close> (and \<^verbatim>\<open>fmt.Errorf\<close> without \<^verbatim>\<open>%w\<close>),
  \<open>Wrap m e\<close> is \<^verbatim>\<open>fmt.Errorf("m: %w", e)\<close>, \<open>StatusCode m n\<close> is
  \<^verbatim>\<open>fmt.Errorf("m: status code %d", n)\<close>, \<open>PathError op path no\<close> is \<^verbatim>\<open>*fs.PathError\<close>,
  \<open>UrlError\<close> is the transport failure of \<^verbatim>\<open>http.Get\<close>, \<open>ReadError\<close> a failure while reading a
  response body, and \<open>DecodeError\<close> stands for whatever \<^verbatim>\<open>encoding/json\<close> reports
  (a syntax error, a type mismatch, \<^verbatim>\<open>io.EOF\<close>).
\<close>

datatype errno = ENOENT | EACCES | EISDIR | ENOTDIR | ENOTEMPTY | ENOSPC | EINVAL

datatype error =
    New string
  | Wrap string error
  | StatusCode string int
  | PathError string string errno
  | UrlError string
  | ReadError
  | DecodeError

text \<open>\<^verbatim>\<open>errors.Is(err, os.ErrNotExist)\<close>: follows the chain of wrapped errors.\<close>

fun Is_ErrNotExist :: "error \<Rightarrow> bool" where
  "Is_ErrNotExist (Wrap m e) = Is_ErrNotExist e"
| "Is_ErrNotExist (PathError opn path no) = (no = ENOENT)"
| "Is_ErrNotExist e = False"

text \<open>The names the specification gives to the failures of the four operations.\<close>

definition UnsupportedPlatformError :: error where
  "UnsupportedPlatformError = New ''unsupported platform''"


definition PackageNotFoundError :: "string \<Rightarrow> string \<Rightarrow> error" where
  "PackageNotFoundError user repo = New (''package '' @ user @ ''/'' @ repo @ '' not found'')"

definition RemovalError :: "error \<Rightarrow> error" where
  "RemovalError e = Wrap ''failed to remove executable'' e"

subsection \<open>Paths (package path/filepath, on a Unix host)\<close>

fun split_on :: "char \<Rightarrow> string \<Rightarrow> string list" where
  "split_on sep [] = [[]]"
| "split_on sep (c # cs) =
     (if c = sep then [] # split_on sep cs
      else (case split_on sep cs of
              [] \<Rightarrow> [[c]]
            | w # ws \<Rightarrow> (c # w) # ws))"

fun join_path :: "string list \<Rightarrow> string" where
  "join_path [] = []"
| "join_path [x] = x"
| "join_path (x # y # ys) = x @ ''/'' @ join_path (y # ys)"

text \<open>
  One element of the path in \<^verbatim>\<open>filepath.Clean\<close>; \<open>out\<close> is the output so far, last
  element first.  An empty element and \<^verbatim>\<open>.\<close> are dropped; \<^verbatim>\<open>..\<close> removes the last real
  element, is dropped at the root, and is kept at the front of a relative path.
\<close>

fun clean_step :: "bool \<Rightarrow> string list \<Rightarrow> string \<Rightarrow> string list" where
  "clean_step rooted out elem =
     (if elem = [] \<or> elem = ''.'' then out
      else if elem = ''..'' then
        (case out of
           [] \<Rightarrow> if rooted then [] else [''..'']
         | e # rest \<Rightarrow> if e = ''..'' then ''..'' # out else rest)
      else elem # out)"

definition Clean :: "string \<Rightarrow> string" where
  "Clean path =
     (let rooted = (case path of [] \<Rightarrow> False | c # cs \<Rightarrow> c = CHR ''/'');
          out = rev (foldl (clean_step rooted) [] (split_on (CHR ''/'') path));
          s = (if rooted then ''/'' else []) @ join_path out
      in if s = [] then ''.'' else s)"

text \<open>\<^verbatim>\<open>filepath.Join(a, b)\<close>: empty leading elements are ignored, the result is cleaned.\<close>

definition Join :: "string \<Rightarrow> string \<Rightarrow> string" where
  "Join a b =
     (if a \<noteq> [] then Clean (a @ ''/'' @ b)
      else if b \<noteq> [] then Clean b
      else [])"

definition starFile :: string where
  "starFile = ''./stars/.stars''"

definition installDir :: string where
  "installDir = ''./stars''"

subsection \<open>The file system (package os)\<close>

text \<open>
  The file system is a table from cleaned paths, relative to the working directory, to
  nodes.  Distinct cleaned paths are distinct files: there are no links, and no path
  climbs out of the working directory and back in.  \<open>no_read\<close>, \<open>no_write\<close> and
  \<open>no_remove\<close> list the paths that the process has no permission to open for reading, to
  create or truncate, and to remove; \<open>disk_full\<close> says that no byte can be written, and
  \<open>requests\<close> is the log of the URLs fetched so far.
\<close>

datatype node = Regular string | Directory

record world =
  files :: "(string \<times> node) list"
  no_read :: "string list"
  no_write :: "string list"
  no_remove :: "string list"
  disk_full :: bool
  requests :: "string list"

definition store :: "string \<Rightarrow> node \<Rightarrow> (string \<times> node) list \<Rightarrow> (string \<times> node) list" where
  "store p n fs = (p, n) # filter (\<lambda>e. fst e \<noteq> p) fs"

definition unlink :: "string \<Rightarrow> (string \<times> node) list \<Rightarrow> (string \<times> node) list" where
  "unlink p fs = filter (\<lambda>e. fst e \<noteq> p) fs"

text \<open>The working directory and its ancestors: \<^verbatim>\<open>.\<close>, \<^verbatim>\<open>..\<close>, \<^verbatim>\<open>../..\<close> and so on.\<close>

definition dots_only :: "string \<Rightarrow> bool" where
  "dots_only p = list_all (\<lambda>e. e = ''.'' \<or> e = ''..'') (split_on (CHR ''/'') p)"

definition parent :: "string \<Rightarrow> string" where
  "parent p = Clean (p @ ''/..'')"

text \<open>The elements of a cleaned path, and the entry \<open>e\<close> of the directory \<open>pre\<close>.\<close>

definition elements :: "string \<Rightarrow> string list" where
  "elements p = filter (\<lambda>e. e \<noteq> []) (split_on (CHR ''/'') p)"

definition root_of :: "string \<Rightarrow> string" where
  "root_of p = (if HasPrefix p ''/'' then ''/'' else [])"

definition child :: "string \<Rightarrow> string \<Rightarrow> string" where
  "child pre e = (if pre = [] \<or> pre = ''/'' then pre @ e else pre @ ''/'' @ e)"

text \<open>
  The kernel resolves a path one element after the other: every element but the last
  must be a directory.  \<open>walk\<close> gives the error of the first that is not: \<open>ENOENT\<close>
  where nothing is, \<open>ENOTDIR\<close> at a regular file.
\<close>

fun walk :: "string list \<Rightarrow> string \<Rightarrow> (string \<times> node) list \<Rightarrow> errno option" where
  "walk [] pre fs = None"
| "walk [e] pre fs = None"
| "walk (e # e' # es) pre fs =
     (if dots_only (child pre e) then walk (e' # es) (child pre e) fs
      else (case map_of fs (child pre e) of
              None \<Rightarrow> Some ENOENT
            | Some (Regular c) \<Rightarrow> Some ENOTDIR
            | Some Directory \<Rightarrow> walk (e' # es) (child pre e) fs))"

definition parent_errno :: "string \<Rightarrow> world \<Rightarrow> errno option" where
  "parent_errno p w = walk (elements p) (root_of p) (files w)"

definition has_entries :: "string \<Rightarrow> (string \<times> node) list \<Rightarrow> bool" where
  "has_entries d fs = list_ex (\<lambda>e. fst e \<noteq> d \<and> parent (fst e) = d) fs"

text \<open>\<^verbatim>\<open>os.Open\<close>: the error, or the node that the returned handle reads.\<close>

definition os_Open :: "string \<Rightarrow> world \<Rightarrow> error + node" where
  "os_Open name w =
     (let p = Clean name in
      if dots_only p then Inr Directory
      else (case parent_errno p w of
              Some no \<Rightarrow> Inl (PathError ''open'' name no)
            | None \<Rightarrow>
                (case map_of (files w) p of
                   None \<Rightarrow> Inl (PathError ''open'' name ENOENT)
                 | Some n \<Rightarrow>
                     if p \<in> set (no_read w) then Inl (PathError ''open'' name EACCES)
                     else Inr n)))"

text \<open>\<^verbatim>\<open>os.Create\<close>: creates the file, or truncates the one that is there.\<close>

definition os_Create :: "string \<Rightarrow> world \<Rightarrow> world \<times> error option" where
  "os_Create name w =
     (let p = Clean name in
      if dots_only p then (w, Some (PathError ''open'' name EISDIR))
      else (case parent_errno p w of
              Some no \<Rightarrow> (w, Some (PathError ''open'' name no))
            | None \<Rightarrow>
                if map_of (files w) p = Some Directory
                  then (w, Some (PathError ''open'' name EISDIR))
                else if p \<in> set (no_write w) then (w, Some (PathError ''open'' name EACCES))
                else (w\<lparr>files := store p (Regular []) (files w)\<rparr>, None)))"

text \<open>
  Writing \<open>bytes\<close> to the file just created at \<open>name\<close>.  Nothing is written when the disk
  is full; writing no byte at all always succeeds.
\<close>

definition file_Write :: "string \<Rightarrow> string \<Rightarrow> world \<Rightarrow> world \<times> error option" where
  "file_Write name bytes w =
     (if bytes \<noteq> [] \<and> disk_full w then (w, Some (PathError ''write'' name ENOSPC))
      else (w\<lparr>files := store (Clean name) (Regular bytes) (files w)\<rparr>, None))"

text \<open>\<^verbatim>\<open>os.Remove\<close>: unlinks a file, removes a directory that has no entries.\<close>

definition os_Remove :: "string \<Rightarrow> world \<Rightarrow> world \<times> error option" where
  "os_Remove name w =
     (let p = Clean name in
      if dots_only p then (w, Some (PathError ''remove'' name EINVAL))
      else (case parent_errno p w of
              Some no \<Rightarrow> (w, Some (PathError ''remove'' name no))
            | None \<Rightarrow>
                (case map_of (files w) p of
                   None \<Rightarrow> (w, Some (PathError ''remove'' name ENOENT))
                 | Some n \<Rightarrow>
                     if p \<in> set (no_remove w) then (w, Some (PathError ''remove'' name EACCES))
                     else if n = Directory \<and> has_entries p (files w)
                       then (w, Some (PathError ''remove'' name ENOTEMPTY))
                     else (w\<lparr>files := unlink p (files w)\<rparr>, None))))"

text \<open>
  \<^verbatim>\<open>os.MkdirAll\<close>, one directory of the path after the other: \<open>pre\<close> is the path already
  there, the list holds the elements still to go.
\<close>

fun mkdir_all :: "string list \<Rightarrow> string \<Rightarrow> string \<Rightarrow> world \<Rightarrow> world \<times> error option" where
  "mkdir_all [] pre name w = (w, None)"
| "mkdir_all (e # es) pre name w =
     (if dots_only (child pre e) then mkdir_all es (child pre e) name w
      else (case map_of (files w) (child pre e) of
              Some Directory \<Rightarrow> mkdir_all es (child pre e) name w
            | Some (Regular c) \<Rightarrow> (w, Some (PathError ''mkdir'' name ENOTDIR))
            | None \<Rightarrow>
                if child pre e \<in> set (no_write w)
                  then (w, Some (PathError ''mkdir'' name EACCES))
                else mkdir_all es (child pre e) name
                       (w\<lparr>files := store (child pre e) Directory (files w)\<rparr>)))"

definition os_MkdirAll :: "string \<Rightarrow> world \<Rightarrow> world \<times> error option" where
  "os_MkdirAll name w = mkdir_all (elements (Clean name)) (root_of (Clean name)) name w"

subsection \<open>The network and the host (packages net/http and runtime)\<close>

text \<open>
  A request either fails in transport or is answered with a status code and a body; the
  flag says that reading the body ends with an error after the bytes given, rather than at
  the end of the stream.  The answer may depend on the requests made before.
\<close>

datatype http_result = Failed | Response int string bool

record asset =
  Name :: string
  URL :: string

record releaseData =
  Assets :: "asset list"
  TagName :: string

text \<open>
  What the program takes from its surroundings: the constants \<^verbatim>\<open>runtime.GOOS\<close> and
  \<^verbatim>\<open>runtime.GOARCH\<close>, the lower-case mapping of the runes outside ASCII in the tables of
  package \<^verbatim>\<open>unicode\<close>, the answers of the network, and the decoding of a release document
  into \<^verbatim>\<open>releaseData\<close> by \<^verbatim>\<open>encoding/json\<close> (\<open>None\<close> when the decoder reports an error).
\<close>

record environment =
  GOOS :: string
  GOARCH :: string
  lower_case :: "nat \<Rightarrow> nat"
  http :: "string list \<Rightarrow> string \<Rightarrow> http_result"
  decode_release :: "string \<Rightarrow> releaseData option"

definition http_Get :: "environment \<Rightarrow> string \<Rightarrow> world \<Rightarrow> world \<times> http_result" where
  "http_Get env url w = (w\<lparr>requests := requests w @ [url]\<rparr>, http env (requests w) url)"

text \<open>
  \<^verbatim>\<open>io.Copy(file, resp.Body)\<close>: the bytes that arrived are in the file also when the body
  ends with an error.
\<close>

definition io_Copy :: "string \<Rightarrow> string \<Rightarrow> bool \<Rightarrow> world \<Rightarrow> world \<times> error option" where
  "io_Copy name body broken w =
     (case file_Write name body w of
        (w', Some e) \<Rightarrow> (w', Some e)
      | (w', None) \<Rightarrow> (w', if broken then Some ReadError else None))"

subsection \<open>UTF-8 (package unicode/utf8)\<close>

definition is_cont :: "char \<Rightarrow> bool" where
  "is_cont c = (0x80 \<le> (of_char c :: nat) \<and> (of_char c :: nat) \<le> 0xBF)"

text \<open>
  The number of bytes of the rune at the head of a string as \<^verbatim>\<open>utf8.DecodeRune\<close> finds it,
  and \<open>0\<close> where it returns \<^verbatim>\<open>(RuneError, 1)\<close>: at a byte that starts no well-formed
  sequence (an overlong form, a surrogate and a value beyond \<^verbatim>\<open>U+10FFFF\<close> included).
\<close>

fun utf8_size :: "string \<Rightarrow> nat" where
  "utf8_size [] = 0"
| "utf8_size (c # cs) =
     (let b = (of_char c :: nat) in
      if b < 0x80 then 1
      else if b < 0xC2 then 0
      else if b < 0xE0 then
        (case cs of c1 # r1 \<Rightarrow> if is_cont c1 then 2 else 0 | [] \<Rightarrow> 0)
      else if b < 0xF0 then
        (case cs of
           c1 # c2 # r2 \<Rightarrow>
             if (if b = 0xE0 then 0xA0 else 0x80) \<le> (of_char c1 :: nat)
                \<and> (of_char c1 :: nat) \<le> (if b = 0xED then 0x9F else 0xBF) \<and> is_cont c2
             then 3 else 0
         | _ \<Rightarrow> 0)
      else if b < 0xF5 then
        (case cs of
           c1 # c2 # c3 # r3 \<Rightarrow>
             if (if b = 0xF0 then 0x90 else 0x80) \<le> (of_char c1 :: nat)
                \<and> (of_char c1 :: nat) \<le> (if b = 0xF4 then 0x8F else 0xBF)
                \<and> is_cont c2 \<and> is_cont c3
             then 4 else 0
         | _ \<Rightarrow> 0)
      else 0)"

lemma utf8_size_le: "utf8_size s \<le> length s"
  by (cases s) (auto simp: Let_def split: list.splits)

lemma utf8_size_le4: "utf8_size s \<le> 4"
  by (cases s) (auto simp: Let_def split: list.splits)

lemma utf8_size_ascii: "(of_char c :: nat) < 0x80 \<Longrightarrow> utf8_size (c # cs) = 1"
  by simp

lemma utf8_size_multi: "\<not> (of_char c :: nat) < 0x80 \<Longrightarrow> utf8_size (c # cs) \<noteq> Suc 0"
  by (auto simp: Let_def split: list.splits)

declare utf8_size.simps [simp del]

text \<open>\<^verbatim>\<open>utf8.ValidString\<close>.\<close>

function valid_utf8 :: "string \<Rightarrow> bool" where
  "valid_utf8 [] = True"
| "valid_utf8 (c # cs) =
     (if utf8_size (c # cs) = 0 then False
      else valid_utf8 (drop (utf8_size (c # cs)) (c # cs)))"
  by pat_completeness auto
termination
  by (relation "measure length") auto

text \<open>The replacement rune \<^verbatim>\<open>U+FFFD\<close> in UTF-8, and \<^verbatim>\<open>utf8.EncodeRune\<close>.\<close>

definition RuneError :: string where
  "RuneError = [CHR 0xEF, CHR 0xBF, CHR 0xBD]"

definition EncodeRune :: "nat \<Rightarrow> string" where
  "EncodeRune r =
     (if r < 0x80 then [char_of r]
      else if r < 0x800 then [char_of (0xC0 + r div 64), char_of (0x80 + r mod 64)]
      else if 0xD800 \<le> r \<and> r < 0xE000 then RuneError
      else if r < 0x10000 then
        [char_of (0xE0 + r div 4096), char_of (0x80 + (r div 64) mod 64),
         char_of (0x80 + r mod 64)]
      else if r < 0x110000 then
        [char_of (0xF0 + r div 262144), char_of (0x80 + (r div 4096) mod 64),
         char_of (0x80 + (r div 64) mod 64), char_of (0x80 + r mod 64)]
      else RuneError)"

text \<open>
  The rune that a well-formed sequence of one to four bytes encodes, and
  \<^verbatim>\<open>utf8.DecodeRune\<close> at the head of a string that is not empty: the rune and its width, or
  \<^verbatim>\<open>(RuneError, 1)\<close>.
\<close>

fun rune_of :: "string \<Rightarrow> nat" where
  "rune_of [c0] = of_char c0"
| "rune_of [c0, c1] = (of_char c0 - 0xC0) * 64 + (of_char c1 - 0x80)"
| "rune_of [c0, c1, c2] =
     (of_char c0 - 0xE0) * 4096 + (of_char c1 - 0x80) * 64 + (of_char c2 - 0x80)"
| "rune_of [c0, c1, c2, c3] =
     (of_char c0 - 0xF0) * 262144 + (of_char c1 - 0x80) * 4096 + (of_char c2 - 0x80) * 64
       + (of_char c3 - 0x80)"
| "rune_of s = 0xFFFD"

definition DecodeRune :: "string \<Rightarrow> nat \<times> nat" where
  "DecodeRune s =
     (if utf8_size s = 0 then (0xFFFD, 1) else (rune_of (take (utf8_size s) s), utf8_size s))"

subsection \<open>Lower case (packages strings and unicode)\<close>

text \<open>
  \<^verbatim>\<open>unicode.ToLower\<close>: the ASCII letters are mapped by arithmetic, every other rune through
  the case tables of package \<^verbatim>\<open>unicode\<close>.  The tables are not part of the program; \<open>table\<close>
  stands for them.
\<close>

definition unicode_ToLower :: "(nat \<Rightarrow> nat) \<Rightarrow> nat \<Rightarrow> nat" where
  "unicode_ToLower table r =
     (if r < 0x80 then (if 0x41 \<le> r \<and> r \<le> 0x5A then r + 0x20 else r) else table r)"

text \<open>
  \<^verbatim>\<open>strings.Map\<close> for a mapping that drops no rune: every rune of the string, a byte that
  starts no well-formed sequence counting as \<^verbatim>\<open>U+FFFD\<close>, is replaced by the encoding of its
  image.  (Go copies the bytes up to the first rune that changes; they are the encoding
  of their runes.)
\<close>

function Map_runes :: "(nat \<Rightarrow> nat) \<Rightarrow> string \<Rightarrow> string" where
  "Map_runes mapping [] = []"
| "Map_runes mapping (c # cs) =
     EncodeRune (mapping (fst (DecodeRune (c # cs))))
       @ Map_runes mapping (drop (snd (DecodeRune (c # cs))) (c # cs))"
  by pat_completeness auto
termination
  by (relation "measure (\<lambda>(m, s). length s)") (auto simp: DecodeRune_def)

text \<open>
  \<^verbatim>\<open>strings.ToLower\<close>: a string of ASCII bytes is mapped byte by byte, any other string
  rune by rune with \<^verbatim>\<open>unicode.ToLower\<close>.
\<close>

definition ToLower_char :: "char \<Rightarrow> char" where
  "ToLower_char c =
     (if 0x41 \<le> (of_char c :: nat) \<and> (of_char c :: nat) \<le> 0x5A
      then char_of ((of_char c :: nat) + 0x20) else c)"

definition ToLower :: "(nat \<Rightarrow> nat) \<Rightarrow> string \<Rightarrow> string" where
  "ToLower table s =
     (if list_all (\<lambda>c. (of_char c :: nat) < 0x80) s then map ToLower_char s
      else Map_runes (unicode_ToLower table) s)"


subsection \<open>Writing the manifest (package encoding/json, the encoder)\<close>

definition hex_digit :: "nat \<Rightarrow> char" where
  "hex_digit n = ''0123456789abcdef'' ! n"

text \<open>
  One ASCII byte of a string inside a JSON string literal, with the HTML escaping that an
  \<^verbatim>\<open>Encoder\<close> has switched on.
\<close>

definition escape_byte :: "char \<Rightarrow> string" where
  "escape_byte c =
     (if c = CHR 0x22 \<or> c = CHR 0x5C then [CHR 0x5C, c]
      else if c = CHR 0x08 then [CHR 0x5C, CHR ''b'']
      else if c = CHR 0x0C then [CHR 0x5C, CHR ''f'']
      else if c = CHR 0x0A then [CHR 0x5C, CHR ''n'']
      else if c = CHR 0x0D then [CHR 0x5C, CHR ''r'']
      else if c = CHR 0x09 then [CHR 0x5C, CHR ''t'']
      else if (of_char c :: nat) < 0x20 \<or> c = CHR ''<'' \<or> c = CHR ''>'' \<or> c = CHR ''&'' then
        [CHR 0x5C, CHR ''u'', CHR ''0'', CHR ''0'',
         hex_digit ((of_char c :: nat) div 16), hex_digit ((of_char c :: nat) mod 16)]
      else [c])"

text \<open>
  The loop of \<^verbatim>\<open>appendString\<close>: a byte that starts no well-formed UTF-8 sequence is
  written as the escape of \<^verbatim>\<open>U+FFFD\<close>, the line and paragraph separators \<^verbatim>\<open>U+2028\<close> and
  \<^verbatim>\<open>U+2029\<close> as their escapes, every other rune as it is.
\<close>

function appendString_loop :: "string \<Rightarrow> string" where
  "appendString_loop [] = []"
| "appendString_loop (c # cs) =
     (if (of_char c :: nat) < 0x80 then escape_byte c @ appendString_loop cs
      else if utf8_size (c # cs) = 0 then
        [CHR 0x5C, CHR ''u'', CHR ''f'', CHR ''f'', CHR ''f'', CHR ''d''] @ appendString_loop cs
      else if take 3 (c # cs) = [CHR 0xE2, CHR 0x80, CHR 0xA8] then
        [CHR 0x5C, CHR ''u'', CHR ''2'', CHR ''0'', CHR ''2'', CHR ''8'']
          @ appendString_loop (drop 3 (c # cs))
      else if take 3 (c # cs) = [CHR 0xE2, CHR 0x80, CHR 0xA9] then
        [CHR 0x5C, CHR ''u'', CHR ''2'', CHR ''0'', CHR ''2'', CHR ''9'']
          @ appendString_loop (drop 3 (c # cs))
      else take (utf8_size (c # cs)) (c # cs)
             @ appendString_loop (drop (utf8_size (c # cs)) (c # cs)))"
  by pat_completeness auto
termination
  by (relation "measure length") auto

definition appendString :: "string \<Rightarrow> string" where
  "appendString s = [CHR 0x22] @ appendString_loop s @ [CHR 0x22]"

text \<open>A \<^verbatim>\<open>Package\<close> is written as an object, the fields in the order of the struct.\<close>

definition encode_Package :: "Package \<Rightarrow> string" where
  "encode_Package p =
     ''{'' @ appendString ''user'' @ '':'' @ appendString (User p)
       @ '','' @ appendString ''repo'' @ '':'' @ appendString (Repo p)
       @ '','' @ appendString ''version'' @ '':'' @ appendString (Version p)
       @ '','' @ appendString ''file'' @ '':'' @ appendString (File p) @ ''}''"

fun encode_elements :: "Package list \<Rightarrow> string" where
  "encode_elements [] = []"
| "encode_elements [p] = encode_Package p"
| "encode_elements (p # q # ps) = encode_Package p @ '','' @ encode_elements (q # ps)"

text \<open>
  \<^verbatim>\<open>json.NewEncoder(file).Encode(packages)\<close>: the value and a newline.  A \<^verbatim>\<open>nil\<close> slice is
  written as \<^verbatim>\<open>null\<close>.  Every slice the source encodes either comes from \<^verbatim>\<open>append\<close> and has
  an element, or is the \<^verbatim>\<open>updatedPackages\<close> of \<^verbatim>\<open>Uninstall\<close> that nothing was appended to
  and is \<^verbatim>\<open>nil\<close>; so the empty list is written as \<^verbatim>\<open>null\<close>.
\<close>

definition Encode_packages :: "Package list \<Rightarrow> string" where
  "Encode_packages packages =
     (if packages = [] then ''null'' else ''['' @ encode_elements packages @ '']'')
       @ [CHR 0x0A]"

subsection \<open>Reading the manifest (package encoding/json, the decoder)\<close>

definition hex_value :: "char \<Rightarrow> nat option" where
  "hex_value c =
     map_of (zip ''0123456789abcdefABCDEF''
               [0, 1, 2, 3, 4, 5, 6, 7, 8, 9, 10, 11, 12, 13, 14, 15, 10, 11, 12, 13, 14, 15]) c"

text \<open>\<^verbatim>\<open>getu4\<close>: the number that a \<^verbatim>\<open>\uXXXX\<close> at the head of the string writes.\<close>

fun getu4 :: "string \<Rightarrow> nat option" where
  "getu4 (b # u # h1 # h2 # h3 # h4 # rest) =
     (if b = CHR 0x5C \<and> u = CHR ''u'' then
        (case (hex_value h1, hex_value h2, hex_value h3, hex_value h4) of
           (Some x1, Some x2, Some x3, Some x4) \<Rightarrow> Some (((x1 * 16 + x2) * 16 + x3) * 16 + x4)
         | _ \<Rightarrow> None)
      else None)"
| "getu4 s = None"

text \<open>The byte that a one-letter escape stands for.\<close>

definition unescape :: "char \<Rightarrow> char option" where
  "unescape e =
     map_of [(CHR 0x22, CHR 0x22), (CHR 0x5C, CHR 0x5C), (CHR ''/'', CHR ''/''),
             (CHR ''b'', CHR 0x08), (CHR ''f'', CHR 0x0C), (CHR ''n'', CHR 0x0A),
             (CHR ''r'', CHR 0x0D), (CHR ''t'', CHR 0x09)] e"

definition emit :: "string \<Rightarrow> (string \<times> string) option \<Rightarrow> (string \<times> string) option" where
  "emit s r = (case r of None \<Rightarrow> None | Some (t, rest) \<Rightarrow> Some (s @ t, rest))"

text \<open>
  A string literal from behind its opening quote: the string it denotes and the input
  after the closing quote, or \<open>None\<close> where the scanner reports a syntax error (a control
  character, an unknown escape, the end of the input).  As in \<^verbatim>\<open>unquoteBytes\<close>, a
  \<^verbatim>\<open>\uXXXX\<close> of a surrogate half joins a following low half or becomes \<^verbatim>\<open>U+FFFD\<close>, and
  a byte that starts no well-formed UTF-8 sequence becomes \<^verbatim>\<open>U+FFFD\<close>.
\<close>

function unquote :: "string \<Rightarrow> (string \<times> string) option" where
  "unquote [] = None"
| "unquote (c # cs) =
     (if c = CHR 0x22 then Some ([], cs)
      else if c = CHR 0x5C then
        (case cs of
           [] \<Rightarrow> None
         | e # cs' \<Rightarrow>
             if e = CHR ''u'' then
               (case getu4 (c # cs) of
                  None \<Rightarrow> None
                | Some rr \<Rightarrow>
                    if 0xD800 \<le> rr \<and> rr < 0xE000 then
                      (case getu4 (drop 4 cs') of
                         None \<Rightarrow> emit RuneError (unquote (drop 4 cs'))
                       | Some rr1 \<Rightarrow>
                           if rr < 0xDC00 \<and> 0xDC00 \<le> rr1 \<and> rr1 < 0xE000 then
                             emit (EncodeRune ((rr - 0xD800) * 1024 + (rr1 - 0xDC00) + 0x10000))
                               (unquote (drop 10 cs'))
                           else emit RuneError (unquote (drop 4 cs')))
                    else emit (EncodeRune rr) (unquote (drop 4 cs')))
             else (case unescape e of
                     None \<Rightarrow> None
                   | Some b \<Rightarrow> emit [b] (unquote cs')))
      else if (of_char c :: nat) < 0x20 then None
      else if (of_char c :: nat) < 0x80 then emit [c] (unquote cs)
      else if utf8_size (c # cs) = 0 then emit RuneError (unquote cs)
      else emit (take (utf8_size (c # cs)) (c # cs))
             (unquote (drop (utf8_size (c # cs)) (c # cs))))"
  by pat_completeness auto
termination
  by (relation "measure length") auto

lemma unquote_length: "unquote s = Some (t, rest) \<Longrightarrow> length rest < length s"
proof (induction "length s" arbitrary: s t rule: less_induct)
  case less
  show ?case
  proof (cases s)
    case Nil
    with less.prems show ?thesis by simp
  next
    case (Cons c cs)
    have IH: "unquote s' = Some (t', rest) \<Longrightarrow> length s' \<le> length cs \<Longrightarrow> length rest < length cs"
      for s' t'
      using less.hyps [of s' t'] Cons by simp
    have sz: "length (drop (utf8_size (c # cs)) (c # cs)) \<le> length cs"
      if "utf8_size (c # cs) \<noteq> 0"
      using that by simp
    from less.prems show ?thesis
      unfolding Cons
      apply (simp add: emit_def split: if_splits list.splits option.splits prod.splits)
      apply (auto dest!: IH sz)
      done
  qed
qed

text \<open>A number as the scanner accepts it; the result is the input behind it.\<close>

definition is_digit :: "char \<Rightarrow> bool" where
  "is_digit c = (c \<in> set ''0123456789'')"

definition lex_exp :: "string \<Rightarrow> string option" where
  "lex_exp s =
     (case s of
        [] \<Rightarrow> Some s
      | e # r \<Rightarrow>
          if e = CHR ''e'' \<or> e = CHR ''E'' then
            (case (case r of [] \<Rightarrow> r | sg # t \<Rightarrow> if sg = CHR ''+'' \<or> sg = CHR ''-'' then t else r) of
               [] \<Rightarrow> None
             | d # t \<Rightarrow> if is_digit d then Some (dropWhile is_digit t) else None)
          else Some s)"

definition lex_frac :: "string \<Rightarrow> string option" where
  "lex_frac s =
     (case s of
        [] \<Rightarrow> Some s
      | d # r \<Rightarrow>
          if d = CHR ''.'' then
            (case r of
               [] \<Rightarrow> None
             | x # t \<Rightarrow> if is_digit x then lex_exp (dropWhile is_digit t) else None)
          else lex_exp s)"

definition lex_number :: "string \<Rightarrow> string option" where
  "lex_number s =
     (case (case s of [] \<Rightarrow> s | m # t \<Rightarrow> if m = CHR ''-'' then t else s) of
        [] \<Rightarrow> None
      | d # t \<Rightarrow>
          if d = CHR ''0'' then lex_frac t
          else if is_digit d then lex_frac (dropWhile is_digit t)
          else None)"

lemma lex_exp_length: "lex_exp s = Some r \<Longrightarrow> length r \<le> length s"
  by (auto simp: lex_exp_def split: list.splits if_splits
        intro: le_SucI order_trans [OF length_dropWhile_le])

lemma lex_frac_length: "lex_frac s = Some r \<Longrightarrow> length r \<le> length s"
  by (auto simp: lex_frac_def split: list.splits if_splits
        dest!: lex_exp_length intro: le_SucI order_trans [OF _ length_dropWhile_le])

lemma lex_number_length: "lex_number s = Some r \<Longrightarrow> length r < length s"
  by (auto simp: lex_number_def split: list.splits if_splits
        dest!: lex_frac_length intro: le_SucI le_imp_less_Suc
          order_trans [OF _ length_dropWhile_le])

text \<open>
  The tokens of a JSON text.  The list ends with \<open>TError\<close> at the first byte that starts
  no token; what follows it is not looked at.
\<close>

datatype token =
    TLBrace | TRBrace | TLBrack | TRBrack | TColon | TComma
  | TStr string | TNum | TTrue | TFalse | TNull | TError

definition is_space :: "char \<Rightarrow> bool" where
  "is_space c = (c = CHR '' '' \<or> c = CHR 0x09 \<or> c = CHR 0x0D \<or> c = CHR 0x0A)"

function tokenize :: "string \<Rightarrow> token list" where
  "tokenize [] = []"
| "tokenize (c # cs) =
     (if is_space c then tokenize cs
      else if c = CHR ''{'' then TLBrace # tokenize cs
      else if c = CHR ''}'' then TRBrace # tokenize cs
      else if c = CHR ''['' then TLBrack # tokenize cs
      else if c = CHR '']'' then TRBrack # tokenize cs
      else if c = CHR '':'' then TColon # tokenize cs
      else if c = CHR '','' then TComma # tokenize cs
      else if c = CHR 0x22 then
        (case unquote cs of
           None \<Rightarrow> [TError]
         | Some (s, rest) \<Rightarrow> TStr s # tokenize rest)
      else if c = CHR ''-'' \<or> is_digit c then
        (case lex_number (c # cs) of
           None \<Rightarrow> [TError]
         | Some rest \<Rightarrow> TNum # tokenize rest)
      else if HasPrefix (c # cs) ''true'' then TTrue # tokenize (drop 3 cs)
      else if HasPrefix (c # cs) ''false'' then TFalse # tokenize (drop 4 cs)
      else if HasPrefix (c # cs) ''null'' then TNull # tokenize (drop 3 cs)
      else [TError])"
  by pat_completeness auto
termination
proof (relation "measure length", goal_cases)
  case (9 c cs x2 x y)
  then show ?case
    using unquote_length [of cs x y] by simp
next
  case (10 c cs x2)
  then show ?case
    using lex_number_length [of "c # cs" x2] by simp
qed simp_all

text \<open>
  The values of JSON.  Nothing the program decodes into holds a number or a truth value,
  so these carry no content.
\<close>

datatype json =
    JNull | JBool | JNum | JStr string | JArr "json list" | JObj "(string \<times> json) list"

text \<open>
  The parser reads the tokens of the first value of the input, as \<^verbatim>\<open>Decoder.Decode\<close> does,
  and ignores what follows it.  A frame is an array or an object under construction, its
  elements last first; an object frame holds the key that waits for its value.
\<close>

datatype frame = FArr "json list" | FObj "(string \<times> json) list" "string option"

datatype expect = EValue | EValueOrEnd | EKeyOrEnd | EKey | EColon | ECommaOrEnd

datatype outcome = Next expect "frame list" | Done json | Bad

text \<open>A finished value goes into the frame on top of the stack; with no frame it is the result.\<close>

fun complete :: "json \<Rightarrow> frame list \<Rightarrow> outcome" where
  "complete v [] = Done v"
| "complete v (FArr es # st) = Next ECommaOrEnd (FArr (v # es) # st)"
| "complete v (FObj ms (Some k) # st) = Next ECommaOrEnd (FObj ((k, v) # ms) None # st)"
| "complete v (FObj ms None # st) = Bad"

text \<open>The scanner refuses a nesting deeper than 10000.\<close>

definition push :: "expect \<Rightarrow> frame \<Rightarrow> frame list \<Rightarrow> outcome" where
  "push e f st = (if length st < 10000 then Next e (f # st) else Bad)"

fun begin_value :: "token \<Rightarrow> frame list \<Rightarrow> outcome" where
  "begin_value TLBrack st = push EValueOrEnd (FArr []) st"
| "begin_value TLBrace st = push EKeyOrEnd (FObj [] None) st"
| "begin_value (TStr s) st = complete (JStr s) st"
| "begin_value TNum st = complete JNum st"
| "begin_value TTrue st = complete JBool st"
| "begin_value TFalse st = complete JBool st"
| "begin_value TNull st = complete JNull st"
| "begin_value t st = Bad"

fun step :: "expect \<Rightarrow> frame list \<Rightarrow> token \<Rightarrow> outcome" where
  "step EValue st t = begin_value t st"
| "step EValueOrEnd (FArr es # st) TRBrack = complete (JArr (rev es)) st"
| "step EValueOrEnd st t = begin_value t st"
| "step EKeyOrEnd (FObj ms k # st) TRBrace = complete (JObj (rev ms)) st"
| "step EKeyOrEnd (FObj ms k # st) (TStr s) = Next EColon (FObj ms (Some s) # st)"
| "step EKey (FObj ms k # st) (TStr s) = Next EColon (FObj ms (Some s) # st)"
| "step EColon st TColon = Next EValue st"
| "step ECommaOrEnd (FArr es # st) TComma = Next EValue (FArr es # st)"
| "step ECommaOrEnd (FArr es # st) TRBrack = complete (JArr (rev es)) st"
| "step ECommaOrEnd (FObj ms k # st) TComma = Next EKey (FObj ms k # st)"
| "step ECommaOrEnd (FObj ms k # st) TRBrace = complete (JObj (rev ms)) st"
| "step e st t = Bad"

fun run :: "expect \<Rightarrow> frame list \<Rightarrow> token list \<Rightarrow> json option" where
  "run e st [] = None"
| "run e st (t # ts) =
     (case step e st t of
        Next e' st' \<Rightarrow> run e' st' ts
      | Done v \<Rightarrow> Some v
      | Bad \<Rightarrow> None)"

definition parse_json :: "string \<Rightarrow> json option" where
  "parse_json s = run EValue [] (tokenize s)"

text \<open>
  \<^verbatim>\<open>foldName\<close>: a key of an object names a field when it is the field's name up to case.
  ASCII letters go to upper case; of the runes outside ASCII only \<^verbatim>\<open>U+017F\<close> (long s) and
  \<^verbatim>\<open>U+212A\<close> (the Kelvin sign) fold to an ASCII letter.
\<close>

definition ToUpper_char :: "char \<Rightarrow> char" where
  "ToUpper_char c =
     (case map_of (zip ''abcdefghijklmnopqrstuvwxyz'' ''ABCDEFGHIJKLMNOPQRSTUVWXYZ'') c of
        Some u \<Rightarrow> u
      | None \<Rightarrow> c)"

fun foldName :: "string \<Rightarrow> string" where
  "foldName [] = []"
| "foldName (c # cs) =
     (case cs of
        [] \<Rightarrow> [ToUpper_char c]
      | d # ds \<Rightarrow>
          if c = CHR 0xC5 \<and> d = CHR 0xBF then CHR ''S'' # foldName ds
          else (case ds of
                  [] \<Rightarrow> ToUpper_char c # foldName cs
                | e # es \<Rightarrow>
                    if c = CHR 0xE2 \<and> d = CHR 0x84 \<and> e = CHR 0xAA then CHR ''K'' # foldName es
                    else ToUpper_char c # foldName cs))"

text \<open>
  A value for a field of type \<^verbatim>\<open>string\<close>: a string sets it, \<^verbatim>\<open>null\<close> leaves it, anything
  else is a type error (\<open>None\<close>).
\<close>

definition string_field :: "json \<Rightarrow> string \<Rightarrow> string option" where
  "string_field v old = (case v of JStr s \<Rightarrow> Some s | JNull \<Rightarrow> Some old | _ \<Rightarrow> None)"

definition set_field :: "string \<Rightarrow> json \<Rightarrow> Package \<Rightarrow> Package option" where
  "set_field key v p =
     (if foldName key = ''USER'' then map_option (\<lambda>s. p\<lparr>User := s\<rparr>) (string_field v (User p))
      else if foldName key = ''REPO'' then map_option (\<lambda>s. p\<lparr>Repo := s\<rparr>) (string_field v (Repo p))
      else if foldName key = ''VERSION'' then
        map_option (\<lambda>s. p\<lparr>Version := s\<rparr>) (string_field v (Version p))
      else if foldName key = ''FILE'' then map_option (\<lambda>s. p\<lparr>File := s\<rparr>) (string_field v (File p))
      else Some p)"

fun object_into :: "(string \<times> json) list \<Rightarrow> Package \<Rightarrow> Package option" where
  "object_into [] p = Some p"
| "object_into ((k, v) # ms) p =
     (case set_field k v p of
        None \<Rightarrow> None
      | Some p' \<Rightarrow> object_into ms p')"

definition zero_Package :: Package where
  "zero_Package = \<lparr>User = [], Repo = [], Version = [], File = []\<rparr>"

definition unmarshal_Package :: "json \<Rightarrow> Package option" where
  "unmarshal_Package v =
     (case v of
        JObj ms \<Rightarrow> object_into ms zero_Package
      | JNull \<Rightarrow> Some zero_Package
      | _ \<Rightarrow> None)"

fun unmarshal_elements :: "json list \<Rightarrow> Package list option" where
  "unmarshal_elements [] = Some []"
| "unmarshal_elements (v # vs) =
     (case unmarshal_Package v of
        None \<Rightarrow> None
      | Some p \<Rightarrow> map_option ((#) p) (unmarshal_elements vs))"

definition unmarshal_packages :: "json \<Rightarrow> Package list option" where
  "unmarshal_packages v =
     (case v of
        JArr vs \<Rightarrow> unmarshal_elements vs
      | JNull \<Rightarrow> Some []
      | _ \<Rightarrow> None)"

text \<open>
  \<^verbatim>\<open>json.NewDecoder(file).Decode(&packages)\<close> on the bytes of the file; \<open>None\<close> when it
  returns an error.
\<close>

definition Decode_packages :: "string \<Rightarrow> Package list option" where
  "Decode_packages bytes =
     (case parse_json bytes of
        None \<Rightarrow> None
      | Some v \<Rightarrow> unmarshal_packages v)"

subsection \<open>The manifest\<close>

text \<open>\<^verbatim>\<open>listInstalledPackages\<close> lists all packages from the \<^verbatim>\<open>.stars\<close> file.\<close>

definition listInstalledPackages :: "world \<Rightarrow> Package list \<times> error option" where
  "listInstalledPackages w =
     (case os_Open starFile w of
        Inl err \<Rightarrow> ([], Some err)
      | Inr Directory \<Rightarrow>
          ([], Some (Wrap ''failed to decode .stars file'' (PathError ''read'' starFile EISDIR)))
      | Inr (Regular bytes) \<Rightarrow>
          (case Decode_packages bytes of
             None \<Rightarrow> ([], Some (Wrap ''failed to decode .stars file'' DecodeError))
           | Some packages \<Rightarrow> (packages, None)))"

text \<open>\<^verbatim>\<open>saveInstalledPackages\<close> saves the package list to the \<^verbatim>\<open>.stars\<close> file.\<close>

definition saveInstalledPackages :: "Package list \<Rightarrow> world \<Rightarrow> world \<times> error option" where
  "saveInstalledPackages packages w =
     (case os_Create starFile w of
        (w1, Some err) \<Rightarrow> (w1, Some (Wrap ''failed to create .stars file'' err))
      | (w1, None) \<Rightarrow>
          (case file_Write starFile (Encode_packages packages) w1 of
             (w2, Some err) \<Rightarrow> (w2, Some (Wrap ''failed to write to .stars file'' err))
           | (w2, None) \<Rightarrow> (w2, None)))"

text \<open>\<^verbatim>\<open>updateStarsFile\<close> updates the \<^verbatim>\<open>.stars\<close> file with the installed package.\<close>

definition updateStarsFile :: "Package \<Rightarrow> world \<Rightarrow> world \<times> error option" where
  "updateStarsFile pkg w =
     (case listInstalledPackages w of
        (packages, Some err) \<Rightarrow>
          if \<not> Is_ErrNotExist err
          then (w, Some (Wrap ''failed to list installed packages'' err))
          else saveInstalledPackages (packages @ [pkg]) w
      | (packages, None) \<Rightarrow> saveInstalledPackages (packages @ [pkg]) w)"

definition ListInstalledStars :: "world \<Rightarrow> Package list \<times> error option" where
  "ListInstalledStars w = listInstalledPackages w"

subsection \<open>Install\<close>

definition getPlatform :: "environment \<Rightarrow> string" where
  "getPlatform env = GOOS env @ ''-'' @ GOARCH env"

text \<open>
  The loop over \<^verbatim>\<open>releaseData.Assets\<close>: the pair is \<^verbatim>\<open>downloadURL\<close> and \<^verbatim>\<open>pkg.File\<close>; the
  first asset whose lower-cased name contains the platform sets both and ends the loop.
\<close>

fun match_asset ::
    "(nat \<Rightarrow> nat) \<Rightarrow> string \<Rightarrow> asset list \<Rightarrow> string \<times> string \<Rightarrow> string \<times> string" where
  "match_asset table platform [] (downloadURL, file) = (downloadURL, file)"
| "match_asset table platform (a # as) (downloadURL, file) =
     (if Contains (ToLower table (Name a)) platform then (URL a, Name a)
      else match_asset table platform as (downloadURL, file))"

definition downloadExecutable ::
    "environment \<Rightarrow> string \<Rightarrow> string \<Rightarrow> world \<Rightarrow> world \<times> error option" where
  "downloadExecutable env url destPath w =
     (case http_Get env url w of
        (w1, Failed) \<Rightarrow> (w1, Some (Wrap ''failed to download file'' (UrlError url)))
      | (w1, Response code body broken) \<Rightarrow>
          if code \<noteq> 200 then (w1, Some (StatusCode ''failed to download file'' code))
          else
            (case os_Create destPath w1 of
               (w2, Some err) \<Rightarrow> (w2, Some (Wrap ''failed to create file'' err))
             | (w2, None) \<Rightarrow>
                 (case io_Copy destPath body broken w2 of
                    (w3, Some err) \<Rightarrow> (w3, Some (Wrap ''failed to write file'' err))
                  | (w3, None) \<Rightarrow> (w3, None))))"

definition releaseURL :: "Package \<Rightarrow> string" where
  "releaseURL pkg =
     ''https://api.github.com/repos/'' @ User pkg @ ''/'' @ Repo pkg @ ''/releases/latest''"

text \<open>\<^verbatim>\<open>Install\<close> installs the latest release of the specified package.\<close>

definition Install :: "environment \<Rightarrow> Package \<Rightarrow> world \<Rightarrow> world \<times> error option" where
  "Install env pkg w =
     (let platform = getPlatform env in
      if platform = ''unknown-unknown'' then (w, Some (New ''unsupported platform''))
      else
        (case http_Get env (releaseURL pkg) w of
           (w1, Failed) \<Rightarrow>
             (w1, Some (Wrap ''failed to fetch release'' (UrlError (releaseURL pkg))))
         | (w1, Response code body broken) \<Rightarrow>
             if code \<noteq> 200 then (w1, Some (StatusCode ''failed to fetch release'' code))
             else
               (case decode_release env body of
                  None \<Rightarrow> (w1, Some (Wrap ''failed to decode release data'' DecodeError))
                | Some rel \<Rightarrow>
                    (case match_asset (lower_case env) platform (Assets rel) ([], File pkg) of
                       (downloadURL, file) \<Rightarrow>
                         if downloadURL = [] then
                           (w1, Some (New (''no compatible release found for platform: ''
                                             @ platform)))
                         else
                           (case os_MkdirAll installDir w1 of
                              (w2, Some err) \<Rightarrow>
                                (w2, Some (Wrap ''failed to create install directory'' err))
                            | (w2, None) \<Rightarrow>
                                (case downloadExecutable env downloadURL
                                        (Join installDir file) w2 of
                                   (w3, Some err) \<Rightarrow>
                                     (w3, Some (Wrap ''failed to download executable'' err))
                                 | (w3, None) \<Rightarrow>
                                     (case updateStarsFile
                                             (pkg\<lparr>File := file, Version := TagName rel\<rparr>) w3 of
                                        (w4, Some err) \<Rightarrow>
                                          (w4, Some (Wrap ''failed to update stars file'' err))
                                      | (w4, None) \<Rightarrow> (w4, None))))))))"

subsection \<open>Uninstall and Update\<close>

text \<open>
  The first loop of \<^verbatim>\<open>Uninstall\<close>: \<^verbatim>\<open>filePath\<close> becomes the path of the file of the first
  record with the user and repository of \<open>pkg\<close>, and stays as it is when there is none.
\<close>

fun locate :: "Package \<Rightarrow> Package list \<Rightarrow> string \<Rightarrow> string" where
  "locate pkg [] filePath = filePath"
| "locate pkg (p # ps) filePath =
     (if User p = User pkg \<and> Repo p = Repo pkg then Join installDir (File p)
      else locate pkg ps filePath)"

text \<open>\<^verbatim>\<open>Uninstall\<close> removes a package and updates the \<^verbatim>\<open>.stars\<close> file.\<close>

definition Uninstall :: "Package \<Rightarrow> world \<Rightarrow> world \<times> error option" where
  "Uninstall pkg w =
     (case listInstalledPackages w of
        (packages, Some err) \<Rightarrow> (w, Some (Wrap ''failed to list installed packages'' err))
      | (packages, None) \<Rightarrow>
          (let filePath = locate pkg packages [] in
           if filePath = [] then
             (w, Some (New (''package '' @ User pkg @ ''/'' @ Repo pkg @ '' not found'')))
           else
             (case os_Remove filePath w of
                (w1, Some err) \<Rightarrow> (w1, Some (Wrap ''failed to remove executable'' err))
              | (w1, None) \<Rightarrow>
                  (case saveInstalledPackages
                          (filter (\<lambda>p. User p \<noteq> User pkg \<or> Repo p \<noteq> Repo pkg) packages) w1 of
                     (w2, Some err) \<Rightarrow> (w2, Some (Wrap ''failed to update stars file'' err))
                   | (w2, None) \<Rightarrow> (w2, None)))))"


subsection \<open>Example worlds\<close>

text \<open>
  A fresh working directory; a host and a network on which \<^verbatim>\<open>u/r\<close> has a release
  \<^verbatim>\<open>v1.0\<close> with one asset for macOS and one for Linux; and the world after that package
  was installed on Linux.
\<close>

definition fresh :: world where
  "fresh =
     \<lparr>files = [], no_read = [], no_write = [], no_remove = [],
      disk_full = False, requests = []\<rparr>"

definition release_v1 :: releaseData where
  "release_v1 =
     \<lparr>Assets = [\<lparr>Name = ''tool-darwin-amd64.tar.gz'', URL = ''https://dl/darwin''\<rparr>,
                \<lparr>Name = ''tool-linux-amd64.tar.gz'', URL = ''https://dl/linux''\<rparr>],
      TagName = ''v1.0''\<rparr>"

definition network_v1 :: "string list \<Rightarrow> string \<Rightarrow> http_result" where
  "network_v1 log url =
     (if url = ''https://api.github.com/repos/u/r/releases/latest''
        then Response 200 ''release v1.0'' False
      else if url = ''https://dl/linux'' then Response 200 ''ELF'' False
      else Response 404 [] False)"

text \<open>
  A part of the lower-case table of package \<^verbatim>\<open>unicode\<close>: the Latin-1 capitals, the dotted
  capital I \<^verbatim>\<open>U+0130\<close> and the Kelvin sign \<^verbatim>\<open>U+212A\<close>.
\<close>

definition some_letters :: "nat \<Rightarrow> nat" where
  "some_letters r =
     (if 0xC0 \<le> r \<and> r \<le> 0xDE \<and> r \<noteq> 0xD7 then r + 0x20
      else if r = 0x130 then 0x69
      else if r = 0x212A then 0x6B
      else r)"

definition host :: "string \<Rightarrow> string \<Rightarrow> environment" where
  "host os arch =
     \<lparr>GOOS = os, GOARCH = arch, lower_case = some_letters, http = network_v1,
      decode_release = (\<lambda>body. if body = ''release v1.0'' then Some release_v1 else None)\<rparr>"

definition tool :: Package where
  "tool = \<lparr>User = ''u'', Repo = ''r'', Version = [], File = []\<rparr>"

definition tool_v1 :: Package where
  "tool_v1 = \<lparr>User = ''u'', Repo = ''r'', Version = ''v1.0'', File = ''tool-linux-amd64.tar.gz''\<rparr>"

definition installed :: world where
  "installed =
     \<lparr>files = [(''stars/.stars'', Regular (Encode_packages [tool_v1])),
               (''stars/tool-linux-amd64.tar.gz'', Regular ''ELF''),
               (''stars'', Directory)],
      no_read = [], no_write = [], no_remove = [],
      disk_full = False, requests = []\<rparr>"

text \<open>The same world after the installed file was deleted by hand.\<close>

definition file_gone :: world where
  "file_gone =
     \<lparr>files = [(''stars/.stars'', Regular (Encode_packages [tool_v1])),
               (''stars'', Directory)],
      no_read = [], no_write = [], no_remove = [],
      disk_full = False, requests = []\<rparr>"

definition other_tool :: Package where
  "other_tool = \<lparr>User = ''x'', Repo = ''y'', Version = [], File = []\<rparr>"

text \<open>
  A manifest with two records of \<^verbatim>\<open>u/r\<close> and one of \<^verbatim>\<open>x/y\<close>, and the world after \<^verbatim>\<open>u/r\<close>
  was uninstalled from it.
\<close>

definition tool_v0 :: Package where
  "tool_v0 = \<lparr>User = ''u'', Repo = ''r'', Version = ''v0.9'', File = ''tool-old''\<rparr>"

definition other_v2 :: Package where
  "other_v2 = \<lparr>User = ''x'', Repo = ''y'', Version = ''v2'', File = ''other-linux-amd64''\<rparr>"

definition twice :: world where
  "twice =
     \<lparr>files = [(''stars/.stars'', Regular (Encode_packages [tool_v1, other_v2, tool_v0])),
               (''stars/tool-linux-amd64.tar.gz'', Regular ''ELF''),
               (''stars/other-linux-amd64'', Regular ''OTHER''),
               (''stars/tool-old'', Regular ''OLD''),
               (''stars'', Directory)],
      no_read = [], no_write = [], no_remove = [],
      disk_full = False, requests = []\<rparr>"

definition twice_after :: world where
  "twice_after =
     \<lparr>files = [(''stars/.stars'', Regular (Encode_packages [other_v2])),
               (''stars/other-linux-amd64'', Regular ''OTHER''),
               (''stars/tool-old'', Regular ''OLD''),
               (''stars'', Directory)],
      no_read = [], no_write = [], no_remove = [],
      disk_full = False, requests = []\<rparr>"







subsection \<open>Basic facts\<close>

text \<open>Lower case: \<^verbatim>\<open>strings.ToLower\<close> goes through a hyphen.\<close>

lemma utf8_size_append_ascii:
  "(of_char c :: nat) < 0x80 \<Longrightarrow> utf8_size (x # xs @ c # b) = utf8_size (x # xs)"
  by (cases xs; cases "tl xs"; cases "tl (tl xs)")
    (auto simp: utf8_size.simps Let_def is_cont_def split: list.splits)

lemma take_prefix: "n \<le> length u \<Longrightarrow> take n (u @ v) = take n u"
  by simp

lemma drop_prefix: "n \<le> length u \<Longrightarrow> drop n (u @ v) = drop n u @ v"
  by simp

lemma DecodeRune_append_ascii:
  assumes "(of_char c :: nat) < 0x80"
  shows "DecodeRune (x # xs @ c # b) = DecodeRune (x # xs)"
proof -
  have "utf8_size (x # xs) \<le> length (x # xs)"
    by (rule utf8_size_le)
  then have "take (utf8_size (x # xs)) (x # xs @ c # b) = take (utf8_size (x # xs)) (x # xs)"
    using take_prefix [of "utf8_size (x # xs)" "x # xs" "c # b"] by simp
  then show ?thesis
    using utf8_size_append_ascii [OF assms, of x xs b] by (simp add: DecodeRune_def)
qed

lemma DecodeRune_width: "snd (DecodeRune (x # xs)) \<le> length (x # xs) \<and> 0 < snd (DecodeRune (x # xs))"
  using utf8_size_le [of "x # xs"] by (simp add: DecodeRune_def)

lemma Map_runes_append_ascii:
  "(of_char c :: nat) < 0x80 \<Longrightarrow>
   Map_runes m (a @ c # b) = Map_runes m a @ Map_runes m (c # b)"
proof (induction m a rule: Map_runes.induct)
  case (1 mapping)
  then show ?case by simp
next
  case (2 mapping x xs)
  have d: "DecodeRune (x # xs @ c # b) = DecodeRune (x # xs)"
    by (rule DecodeRune_append_ascii [OF "2.prems"])
  have "drop (snd (DecodeRune (x # xs))) (x # xs @ c # b)
      = drop (snd (DecodeRune (x # xs))) (x # xs) @ c # b"
    using DecodeRune_width [of x xs]
      drop_prefix [of "snd (DecodeRune (x # xs))" "x # xs" "c # b"] by simp
  with d "2.IH" [OF "2.prems"] show ?case
    by simp
qed

lemma Map_runes_ascii_Cons:
  assumes "(of_char c :: nat) < 0x80"
  shows "Map_runes (unicode_ToLower t) (c # b) = ToLower_char c # Map_runes (unicode_ToLower t) b"
proof -
  have d: "DecodeRune (c # b) = (of_char c, 1)"
    using assms by (simp add: DecodeRune_def utf8_size_ascii)
  have "EncodeRune (unicode_ToLower t (of_char c)) = [ToLower_char c]"
    using assms by (simp add: unicode_ToLower_def EncodeRune_def ToLower_char_def)
  with d show ?thesis
    by simp
qed

lemma Map_runes_ascii:
  "list_all (\<lambda>c. (of_char c :: nat) < 0x80) s \<Longrightarrow>
   Map_runes (unicode_ToLower t) s = map ToLower_char s"
  by (induction s) (simp_all add: Map_runes_ascii_Cons del: Map_runes.simps(2))

lemma ToLower_Map_runes: "ToLower t s = Map_runes (unicode_ToLower t) s"
  by (simp add: ToLower_def Map_runes_ascii)

lemma ToLower_hyphen:
  "ToLower t (a @ CHR ''-'' # b) = ToLower t a @ CHR ''-'' # ToLower t b"
proof -
  have h: "(of_char (CHR ''-'') :: nat) < 0x80"
    by simp
  have "ToLower_char (CHR ''-'') = CHR ''-''"
    by (simp add: ToLower_char_def)
  then show ?thesis
    using Map_runes_append_ascii [OF h, of "unicode_ToLower t" a b]
      Map_runes_ascii_Cons [OF h, of t b]
    by (simp add: ToLower_Map_runes)
qed


lemma Clean_not_Nil: "Clean p \<noteq> []"
  by (simp add: Clean_def Let_def)

lemma Join_installDir_not_Nil: "Join installDir f \<noteq> []"
  by (simp add: Join_def installDir_def Clean_not_Nil)

lemma Clean_starFile: "Clean starFile = ''stars/.stars''"
  by (simp add: Clean_def starFile_def)

lemma dots_only_starFile: "\<not> dots_only ''stars/.stars''"
  by (simp add: dots_only_def)

lemma locate_find:
  "locate pkg ps fp =
     (case find (\<lambda>p. User p = User pkg \<and> Repo p = Repo pkg) ps of
        None \<Rightarrow> fp
      | Some p \<Rightarrow> Join installDir (File p))"
  by (induction ps) auto

lemma locate_cong:
  "User pkg = User pkg' \<Longrightarrow> Repo pkg = Repo pkg' \<Longrightarrow> locate pkg ps fp = locate pkg' ps fp"
  by (induction ps) auto

lemma os_Remove_fails: "os_Remove name w = (w', Some e) \<Longrightarrow> w' = w"
  by (auto simp: os_Remove_def Let_def split: if_splits option.splits)

text \<open>Only \<^verbatim>\<open>http.Get\<close> adds to the log of requests.\<close>

lemma os_Create_requests: "os_Create name w = (w', r) \<Longrightarrow> requests w' = requests w"
  by (auto simp: os_Create_def Let_def split: if_splits option.splits)

lemma file_Write_requests: "file_Write name b w = (w', r) \<Longrightarrow> requests w' = requests w"
  by (auto simp: file_Write_def split: if_splits)

lemma io_Copy_requests: "io_Copy name b br w = (w', r) \<Longrightarrow> requests w' = requests w"
  by (auto simp: io_Copy_def split: prod.splits option.splits dest: file_Write_requests)

lemma mkdir_all_requests: "mkdir_all es pre name w = (w', r) \<Longrightarrow> requests w' = requests w"
  by (induction es pre name w rule: mkdir_all.induct)
    (auto simp: Let_def split: if_splits option.splits node.splits)

lemma os_MkdirAll_requests: "os_MkdirAll name w = (w', r) \<Longrightarrow> requests w' = requests w"
  by (auto simp: os_MkdirAll_def Let_def dest: mkdir_all_requests)

lemma saveInstalledPackages_requests:
  "saveInstalledPackages ps w = (w', r) \<Longrightarrow> requests w' = requests w"
  by (auto simp: saveInstalledPackages_def split: prod.splits option.splits)
    (metis os_Create_requests file_Write_requests)+

lemma updateStarsFile_requests:
  "updateStarsFile p w = (w', r) \<Longrightarrow> requests w' = requests w"
  by (auto simp: updateStarsFile_def split: prod.splits option.splits if_splits
        dest: saveInstalledPackages_requests)

lemma downloadExecutable_requests:
  "downloadExecutable env url dest w = (w', r) \<Longrightarrow> requests w' = requests w @ [url]"
  by (auto simp: downloadExecutable_def http_Get_def
        split: prod.splits option.splits if_splits http_result.splits
        dest!: os_Create_requests io_Copy_requests)

lemma Install_requests:
  assumes "getPlatform env \<noteq> ''unknown-unknown''"
  shows "\<exists>more. requests (fst (Install env pkg w)) = requests w @ releaseURL pkg # more"
  using assms
  by (auto simp: Install_def Let_def http_Get_def
        split: prod.splits option.splits if_splits http_result.splits
        dest!: os_MkdirAll_requests downloadExecutable_requests updateStarsFile_requests)

lemma HasPrefix_iff: "HasPrefix s p \<longleftrightarrow> (\<exists>x. s = p @ x)"
  by (induction s p rule: HasPrefix.induct) auto

lemma Contains_iff: "Contains s sub \<longleftrightarrow> (\<exists>u x. s = u @ sub @ x)"
proof (induction s)
  case Nil
  then show ?case by auto
next
  case (Cons c cs)
  show ?case
  proof
    assume "Contains (c # cs) sub"
    then consider "HasPrefix (c # cs) sub" | "Contains cs sub" by auto
    then show "\<exists>u x. c # cs = u @ sub @ x"
    proof cases
      case 1
      then obtain x where "c # cs = sub @ x" by (auto simp: HasPrefix_iff)
      then have "c # cs = [] @ sub @ x" by simp
      then show ?thesis by blast
    next
      case 2
      with Cons obtain u x where "cs = u @ sub @ x" by auto
      then have "c # cs = (c # u) @ sub @ x" by simp
      then show ?thesis by blast
    qed
  next
    assume "\<exists>u x. c # cs = u @ sub @ x"
    then obtain u x where e: "c # cs = u @ sub @ x" by auto
    show "Contains (c # cs) sub"
    proof (cases u)
      case Nil
      with e have "HasPrefix (c # cs) sub" by (auto simp: HasPrefix_iff)
      then show ?thesis by simp
    next
      case (Cons a u')
      with e have "cs = u' @ sub @ x" by simp
      with Cons.IH have "Contains cs sub" by blast
      then show ?thesis by simp
    qed
  qed
qed

lemma map_of_store: "map_of (store p n fs) = (map_of fs)(p \<mapsto> n)"
proof -
  have "map_of (filter (\<lambda>e. fst e \<noteq> p) fs) q = (if q = p then None else map_of fs q)" for q
    by (induction fs) auto
  then show ?thesis
    by (auto simp: store_def)
qed

lemma map_of_unlink: "map_of (unlink p fs) = (map_of fs)(p := None)"
proof -
  have "map_of (filter (\<lambda>e. fst e \<noteq> p) fs) q = (if q = p then None else map_of fs q)" for q
    by (induction fs) auto
  then show ?thesis
    by (auto simp: unlink_def)
qed




lemma os_Remove_ok:
  "os_Remove name w = (w', None) \<Longrightarrow> w' = w\<lparr>files := unlink (Clean name) (files w)\<rparr>"
  by (auto simp: os_Remove_def Let_def split: if_splits option.splits)


lemma os_Create_ok:
  "os_Create name w = (w', None) \<Longrightarrow>
   w' = w\<lparr>files := store (Clean name) (Regular []) (files w)\<rparr> \<and> parent_errno (Clean name) w = None"
  by (auto simp: os_Create_def Let_def split: if_splits option.splits)

lemma file_Write_ok:
  "file_Write name b w = (w', None) \<Longrightarrow>
   w' = w\<lparr>files := store (Clean name) (Regular b) (files w)\<rparr>"
  by (auto simp: file_Write_def split: if_splits)

lemma file_Write_fails: "file_Write name b w = (w', Some e) \<Longrightarrow> w' = w"
  by (auto simp: file_Write_def split: if_splits)

lemma saveInstalledPackages_ok:
  assumes "saveInstalledPackages ps w = (w', None)"
  shows "map_of (files w') = (map_of (files w))(Clean starFile \<mapsto> Regular (Encode_packages ps))"
    and "map_of (files w) ''stars'' = Some Directory"
proof -
  from assms obtain w1 where c: "os_Create starFile w = (w1, None)"
    and f: "file_Write starFile (Encode_packages ps) w1 = (w', None)"
    by (auto simp: saveInstalledPackages_def split: prod.splits option.splits)
  from os_Create_ok [OF c] file_Write_ok [OF f]
  show "map_of (files w') = (map_of (files w))(Clean starFile \<mapsto> Regular (Encode_packages ps))"
    by (simp add: map_of_store)
  from os_Create_ok [OF c] have "parent_errno ''stars/.stars'' w = None"
    by (simp add: Clean_starFile)
  moreover have "parent ''stars/.stars'' = ''stars''"
    by (simp add: parent_def Clean_def)
  moreover have "\<not> dots_only ''stars''"
    by (simp add: dots_only_def)
  ultimately show "map_of (files w) ''stars'' = Some Directory"
    by (auto simp: parent_errno_def elements_def root_of_def child_def
          split: option.splits node.splits if_splits)
qed

lemma Uninstall_ok:
  assumes "listInstalledPackages w = (packages, None)"
    and "find (\<lambda>p. User p = User pkg \<and> Repo p = Repo pkg) packages = Some p"
    and "Uninstall pkg w = (w', None)"
  shows "\<exists>w1. os_Remove (Join installDir (File p)) w = (w1, None)
           \<and> saveInstalledPackages
                (filter (\<lambda>q. User q \<noteq> User pkg \<or> Repo q \<noteq> Repo pkg) packages) w1 = (w', None)"
proof -
  from assms(2) have loc: "locate pkg packages [] = Join installDir (File p)"
    by (simp add: locate_find)
  with assms(1,3) show ?thesis
    by (auto simp: Uninstall_def Join_installDir_not_Nil split: prod.splits option.splits)
qed





text \<open>
  Where the manifest is read and holds no record of the identity, \<^verbatim>\<open>Uninstall\<close> fails with
  \<open>PackageNotFoundError\<close> and leaves the world as it was.
\<close>

lemma Uninstall_not_found:
  "listInstalledPackages w = (packages, None) \<Longrightarrow>
   \<forall>p \<in> set packages. \<not> (User p = User pkg \<and> Repo p = Repo pkg) \<Longrightarrow>
   Uninstall pkg w = (w, Some (PackageNotFoundError (User pkg) (Repo pkg)))"
proof -
  assume l: "listInstalledPackages w = (packages, None)"
    and n: "\<forall>p \<in> set packages. \<not> (User p = User pkg \<and> Repo p = Repo pkg)"
  from n have "find (\<lambda>p. User p = User pkg \<and> Repo p = Repo pkg) packages = None"
    by (simp add: find_None_iff)
  then have "locate pkg packages [] = []"
    by (simp add: locate_find)
  with l show ?thesis
    by (simp add: Uninstall_def PackageNotFoundError_def)
qed






section \<open>The claims\<close>

text \<open>
  C1.  The claim: whenever the manifest file \<^verbatim>\<open>./stars/.stars\<close> does not exist,
  \<^verbatim>\<open>ListInstalledStars\<close> returns an empty sequence and no error.  The code returns the empty
  sequence together with the error of \<^verbatim>\<open>os.Open\<close>, which is not \<^verbatim>\<open>nil\<close>: the theorem below is
  what it does.  Only \<^verbatim>\<open>updateStarsFile\<close> treats \<^verbatim>\<open>os.ErrNotExist\<close> as an empty manifest.
\<close>

theorem ListInstalledStars_manifest_missing:
  "map_of (files w) (Clean starFile) = None \<Longrightarrow>
   fst (ListInstalledStars w) = []
   \<and> (\<exists>no. snd (ListInstalledStars w) = Some (PathError ''open'' starFile no))"
  by (simp add: ListInstalledStars_def listInstalledPackages_def os_Open_def Clean_starFile
      dots_only_starFile Let_def split: option.splits)

theorem ListInstalledStars_manifest_missing_witness:
  "map_of (files fresh) (Clean starFile) = None
   \<and> ListInstalledStars fresh = ([], Some (PathError ''open'' ''./stars/.stars'' ENOENT))"
proof -
  have "ListInstalledStars fresh = ([], Some (PathError ''open'' ''./stars/.stars'' ENOENT))"
    by code_simp
  then show ?thesis
    using ListInstalledStars_manifest_missing [of fresh]
    by (simp add: fresh_def)
qed

text \<open>
  C2.  The platform token that \<^verbatim>\<open>Install\<close> computes is \<^verbatim>\<open><os>-<architecture>\<close>, in lower
  case as the names of the operating system and the architecture are.  On the one pair
  for which the token is the mark of an unknown platform, \<^verbatim>\<open>Install\<close> fails with
  \<open>UnsupportedPlatformError\<close> and leaves the world as it was, the log of requests
  included: no network call was attempted.  On every other pair it requests the release.
\<close>

theorem Install_platform_token:
  "getPlatform env = GOOS env @ ''-'' @ GOARCH env
   \<and> (ToLower (lower_case env) (GOOS env) = GOOS env
        \<and> ToLower (lower_case env) (GOARCH env) = GOARCH env
        \<longrightarrow> ToLower (lower_case env) (getPlatform env) = getPlatform env)
   \<and> (getPlatform env = ''unknown-unknown''
        \<longrightarrow> Install env pkg w = (w, Some UnsupportedPlatformError))
   \<and> (getPlatform env \<noteq> ''unknown-unknown''
        \<longrightarrow> (\<exists>more. requests (fst (Install env pkg w)) = requests w @ releaseURL pkg # more))"
proof -
  have "ToLower (lower_case env) (GOOS env) = GOOS env
      \<and> ToLower (lower_case env) (GOARCH env) = GOARCH env
      \<longrightarrow> ToLower (lower_case env) (getPlatform env) = getPlatform env"
    by (simp add: getPlatform_def ToLower_hyphen)
  moreover have "getPlatform env = ''unknown-unknown''
      \<longrightarrow> Install env pkg w = (w, Some UnsupportedPlatformError)"
    by (simp add: Install_def UnsupportedPlatformError_def)
  ultimately show ?thesis
    using Install_requests [of env pkg w] by (simp add: getPlatform_def)
qed

theorem Install_platform_token_witness:
  "ToLower some_letters ''unknown'' = ''unknown''
   \<and> getPlatform (host ''unknown'' ''unknown'') = ''unknown-unknown''
   \<and> ToLower some_letters (getPlatform (host ''unknown'' ''unknown'')) = ''unknown-unknown''
   \<and> Install (host ''unknown'' ''unknown'') tool fresh = (fresh, Some UnsupportedPlatformError)
   \<and> ToLower some_letters ''linux'' = ''linux'' \<and> ToLower some_letters ''amd64'' = ''amd64''
   \<and> getPlatform (host ''linux'' ''amd64'') = ''linux-amd64''
   \<and> ToLower some_letters (getPlatform (host ''linux'' ''amd64'')) = ''linux-amd64''
   \<and> (\<exists>more. requests (fst (Install (host ''linux'' ''amd64'') tool fresh))
         = requests fresh @ releaseURL tool # more)"
proof -
  have l: "ToLower some_letters ''unknown'' = ''unknown''"
    "ToLower some_letters ''linux'' = ''linux''"
    "ToLower some_letters ''amd64'' = ''amd64''"
    by (simp_all add: ToLower_def ToLower_char_def)
  have p: "getPlatform (host ''unknown'' ''unknown'') = ''unknown-unknown''"
    "getPlatform (host ''linux'' ''amd64'') = ''linux-amd64''"
    by (simp_all add: getPlatform_def host_def)
  have g: "GOOS (host ''unknown'' ''unknown'') = ''unknown''"
    "GOARCH (host ''unknown'' ''unknown'') = ''unknown''"
    "GOOS (host ''linux'' ''amd64'') = ''linux''"
    "GOARCH (host ''linux'' ''amd64'') = ''amd64''"
    "lower_case (host ''unknown'' ''unknown'') = some_letters"
    "lower_case (host ''linux'' ''amd64'') = some_letters"
    by (simp_all add: host_def)
  show ?thesis
    using Install_platform_token [of "host ''unknown'' ''unknown''" tool fresh]
      Install_platform_token [of "host ''linux'' ''amd64''" tool fresh]
    unfolding p g l by simp
qed




text \<open>
  C5.  When the manifest lists a record of the identity and the deletion of the file of
  the first such record fails, \<^verbatim>\<open>Uninstall\<close> returns \<open>RemovalError\<close> and the world, the
  manifest file with it, is as it was.
\<close>

theorem Uninstall_removal_fails:
  "listInstalledPackages w = (packages, None) \<Longrightarrow>
   find (\<lambda>p. User p = User pkg \<and> Repo p = Repo pkg) packages = Some p \<Longrightarrow>
   os_Remove (Join installDir (File p)) w = (w', Some err) \<Longrightarrow>
   Uninstall pkg w = (w, Some (RemovalError err))"
proof -
  assume l: "listInstalledPackages w = (packages, None)"
    and f: "find (\<lambda>p. User p = User pkg \<and> Repo p = Repo pkg) packages = Some p"
    and r: "os_Remove (Join installDir (File p)) w = (w', Some err)"
  from f have loc: "locate pkg packages [] = Join installDir (File p)"
    by (simp add: locate_find)
  from r have "w' = w"
    by (rule os_Remove_fails)
  with l loc r show ?thesis
    by (simp add: Uninstall_def RemovalError_def Join_installDir_not_Nil)
qed

theorem Uninstall_removal_fails_witness:
  "listInstalledPackages file_gone = ([tool_v1], None)
   \<and> find (\<lambda>p. User p = User tool \<and> Repo p = Repo tool) [tool_v1] = Some tool_v1
   \<and> os_Remove (Join installDir (File tool_v1)) file_gone
       = (file_gone, Some (PathError ''remove'' ''stars/tool-linux-amd64.tar.gz'' ENOENT))
   \<and> Uninstall tool file_gone
       = (file_gone,
          Some (RemovalError (PathError ''remove'' ''stars/tool-linux-amd64.tar.gz'' ENOENT)))"
proof -
  have l: "listInstalledPackages file_gone = ([tool_v1], None)"
    by code_simp
  have f: "find (\<lambda>p. User p = User tool \<and> Repo p = Repo tool) [tool_v1] = Some tool_v1"
    by (simp add: tool_def tool_v1_def)
  have r: "os_Remove (Join installDir (File tool_v1)) file_gone
      = (file_gone, Some (PathError ''remove'' ''stars/tool-linux-amd64.tar.gz'' ENOENT))"
    by code_simp
  show ?thesis
    using l f r Uninstall_removal_fails [OF l f r] by simp
qed

text \<open>
  C6.  A successful \<^verbatim>\<open>Uninstall\<close> of an identity that has a record in the manifest leaves
  the manifest file holding the encoding of the records of every other identity, in their
  order: all records of the identity are gone.  Of the other paths only one changes: the
  file of the first record of the identity is removed.
\<close>

theorem Uninstall_removes_records:
  assumes "listInstalledPackages w = (packages, None)"
    and "find (\<lambda>p. User p = User pkg \<and> Repo p = Repo pkg) packages = Some p"
    and "Uninstall pkg w = (w', None)"
  shows "map_of (files w') (Clean starFile)
           = Some (Regular (Encode_packages
                (filter (\<lambda>q. User q \<noteq> User pkg \<or> Repo q \<noteq> Repo pkg) packages)))
       \<and> (\<forall>path. path \<noteq> Clean starFile \<longrightarrow>
             map_of (files w') path
               = (if path = Clean (Join installDir (File p)) then None
                  else map_of (files w) path))"
proof -
  from Uninstall_ok [OF assms] obtain w1
    where r: "os_Remove (Join installDir (File p)) w = (w1, None)"
      and s: "saveInstalledPackages
                (filter (\<lambda>q. User q \<noteq> User pkg \<or> Repo q \<noteq> Repo pkg) packages) w1 = (w', None)"
    by blast
  from os_Remove_ok [OF r] saveInstalledPackages_ok(1) [OF s] show ?thesis
    by (simp add: map_of_unlink)
qed


theorem Uninstall_removes_records_witness:
  "listInstalledPackages twice = ([tool_v1, other_v2, tool_v0], None)
   \<and> find (\<lambda>p. User p = User tool \<and> Repo p = Repo tool) [tool_v1, other_v2, tool_v0] = Some tool_v1
   \<and> Uninstall tool twice = (twice_after, None)
   \<and> map_of (files twice_after) (Clean starFile) = Some (Regular (Encode_packages [other_v2]))
   \<and> map_of (files twice_after) ''stars/tool-linux-amd64.tar.gz'' = None
   \<and> map_of (files twice_after) ''stars/tool-old'' = Some (Regular ''OLD'')"
proof -
  have l: "listInstalledPackages twice = ([tool_v1, other_v2, tool_v0], None)"
    by code_simp
  have f: "find (\<lambda>p. User p = User tool \<and> Repo p = Repo tool) [tool_v1, other_v2, tool_v0]
      = Some tool_v1"
    by (simp add: tool_def tool_v1_def)
  have u: "Uninstall tool twice = (twice_after, None)"
    by code_simp
  have e: "filter (\<lambda>q. User q \<noteq> User tool \<or> Repo q \<noteq> Repo tool) [tool_v1, other_v2, tool_v0]
      = [other_v2]"
    by (simp add: tool_def tool_v1_def tool_v0_def other_v2_def)
  have m: "map_of (files twice_after) ''stars/tool-linux-amd64.tar.gz'' = None"
    "map_of (files twice_after) ''stars/tool-old'' = Some (Regular ''OLD'')"
    by (simp_all add: twice_after_def)
  show ?thesis
    using l f u m Uninstall_removes_records [OF l f u] unfolding e by simp
qed

text \<open>
  C7.  The claim: for every state of the manifest and every identity without a record in
  it, \<^verbatim>\<open>Uninstall\<close> fails with \<open>PackageNotFoundError\<close> and leaves the manifest as it was.
  A manifest file that does not exist is a state of the manifest, the empty one.  There
  the code leaves the world as it was but returns the error of reading the manifest, which
  is not \<open>PackageNotFoundError\<close>: the theorem below is what it does.  Where the manifest is
  read, the claim holds (\<open>Uninstall_not_found\<close> above).
\<close>

theorem Uninstall_manifest_missing:
  "map_of (files w) (Clean starFile) = None \<Longrightarrow>
   (\<exists>no. Uninstall pkg w
           = (w, Some (Wrap ''failed to list installed packages''
                         (PathError ''open'' starFile no))))
   \<and> snd (Uninstall pkg w) \<noteq> Some (PackageNotFoundError (User pkg) (Repo pkg))"
proof -
  assume "map_of (files w) (Clean starFile) = None"
  then have "\<exists>no. listInstalledPackages w = ([], Some (PathError ''open'' starFile no))"
    by (auto simp: listInstalledPackages_def os_Open_def Clean_starFile dots_only_starFile
          Let_def split: option.splits)
  then show ?thesis
    by (auto simp: Uninstall_def PackageNotFoundError_def)
qed

theorem Uninstall_manifest_missing_witness:
  "map_of (files fresh) (Clean starFile) = None
   \<and> Uninstall other_tool fresh
       = (fresh, Some (Wrap ''failed to list installed packages''
                         (PathError ''open'' ''./stars/.stars'' ENOENT)))
   \<and> snd (Uninstall other_tool fresh)
       \<noteq> Some (PackageNotFoundError (User other_tool) (Repo other_tool))"
proof -
  have "Uninstall other_tool fresh
       = (fresh, Some (Wrap ''failed to list installed packages''
                         (PathError ''open'' ''./stars/.stars'' ENOENT)))"
    by code_simp
  then show ?thesis
    using Uninstall_manifest_missing [of fresh other_tool]
    by (simp add: fresh_def starFile_def PackageNotFoundError_def)
qed





text \<open>
  C10.  The outcome of \<^verbatim>\<open>Uninstall\<close>, the error it returns and the world it leaves, depends
  on its argument only through the fields \<^verbatim>\<open>User\<close> and \<^verbatim>\<open>Repo\<close>.
\<close>

theorem Uninstall_identity_only:
  "User pkg = User pkg' \<Longrightarrow> Repo pkg = Repo pkg' \<Longrightarrow> Uninstall pkg w = Uninstall pkg' w"
proof -
  assume u: "User pkg = User pkg'" and r: "Repo pkg = Repo pkg'"
  have "locate pkg ps [] = locate pkg' ps []" for ps
    by (rule locate_cong [OF u r])
  then show ?thesis
    by (simp add: Uninstall_def Let_def u r split: prod.splits option.splits)
qed

theorem Uninstall_identity_only_witness:
  "User tool = User tool_v1 \<and> Repo tool = Repo tool_v1 \<and> Version tool \<noteq> Version tool_v1
   \<and> File tool \<noteq> File tool_v1 \<and> Uninstall tool installed = Uninstall tool_v1 installed"
proof -
  have u: "User tool = User tool_v1" and r: "Repo tool = Repo tool_v1"
    by (simp_all add: tool_def tool_v1_def)
  show ?thesis
    using u r Uninstall_identity_only [OF u r, of installed]
    by (simp add: tool_def tool_v1_def)
qed

end
